theory Spec2Isabelle
  imports
    Main
    "HOL-Library.AList"
    "HOL-Library.Sublist"
    "HOL-Library.Char_ord"
    "HOL-Library.List_Lexorder"
    "HOL-Library.Word"
begin

section \<open>The env provider of laravel-ls\<close>

text \<open>
  The development embeds \<^verbatim>\<open>laravel/providers/env/provider.go\<close>: the provider that
  answers hover, definition, completion, diagnostic and code-action requests about
  \<^verbatim>\<open>env()\<close> calls from two repositories of key/value pairs, one read from
  \<^verbatim>\<open>.env\<close> and one from \<^verbatim>\<open>.env.example\<close>.

  A Go method on \<^verbatim>\<open>*Provider\<close> that mutates the receiver and calls
  \<^verbatim>\<open>ctx.Publish\<close> becomes a function that returns the provider after the request
  together with the list of published values, in the order of the calls. Logging has no
  effect on either and is left out.
\<close>

subsection \<open>Data\<close>

text \<open>Go's \<^verbatim>\<open>error\<close> values are modelled by their message.\<close>

type_synonym error = string

text \<open>
  Modelled from the spec: the entry type of the repository (value and 0-indexed position
  of the effective definition); its declaration is in a file of the package that is not
  part of the sources at hand. The provider reads the fields \<^verbatim>\<open>Value\<close>,
  \<^verbatim>\<open>Line\<close> and \<^verbatim>\<open>Column\<close>.
\<close>

record Metadata =
  Value :: string
  Line :: nat
  Column :: nat

text \<open>
  Modelled from the spec: a repository is a mapping from key to entry. It is represented
  by an association list that is only ever read through \<open>map_of\<close> and through the
  duplicate-free list of its keys, so that the list stands for the finite map it
  denotes.
\<close>

type_synonym Repository = "(string \<times> Metadata) list"

text \<open>
  The syntax tree library's point. Its row and column are of Go's type \<^verbatim>\<open>uint\<close>,
  64 bits wide on the platforms the server is built for: the provider increments the
  row, which wraps around at \<open>2 ^ 64\<close>, and converts it with \<^verbatim>\<open>int(endPos.Row)\<close>.
\<close>

record Point =
  Row :: "64 word"
  PointColumn :: "64 word"

text \<open>
  The protocol's position and range. The provider copies lines and characters and does
  no arithmetic on them; they are modelled as natural numbers.
\<close>

record Position =
  PositionLine :: nat
  Character :: nat

record Range =
  Start :: Position
  End :: Position

text \<open>
  A cached file: its bytes and, of its syntax tree, the end position of the root node
  (\<^verbatim>\<open>Tree.Root().EndPosition()\<close>), which is all the provider reads from the tree
  directly.
\<close>

record File =
  Src :: string
  EndPosition :: Point

text \<open>
  The file cache, with the contract of its two operations: \<^verbatim>\<open>Open\<close> yields the
  file or an error, \<^verbatim>\<open>Get\<close> yields the cached file.
\<close>

record FileCache =
  Open :: "string \<Rightarrow> error + File"
  CacheGet :: "string \<Rightarrow> File"

subsection \<open>The repository\<close>

text \<open>
  Modelled from the spec: \<^verbatim>\<open>Get(key) -> (Entry, found)\<close>, exact lookup.
\<close>

definition Get :: "Repository \<Rightarrow> string \<Rightarrow> Metadata option" where
  "Get r key = map_of r key"

text \<open>
  Modelled from the spec: \<^verbatim>\<open>Exists(key) -> bool\<close>, \<^verbatim>\<open>Get\<close> without the value.
\<close>

definition Exists :: "Repository \<Rightarrow> string \<Rightarrow> bool" where
  "Exists r key = (case Get r key of None \<Rightarrow> False | Some _ \<Rightarrow> True)"

text \<open>
  Modelled from the spec: \<^verbatim>\<open>Find(prefix)\<close>, all keys whose text begins with the
  prefix (the empty prefix matches all), each with its entry, in ascending lexical key
  order. Strings are compared byte by byte, a proper prefix before its extensions.
\<close>

definition Find :: "Repository \<Rightarrow> string \<Rightarrow> (string \<times> Metadata) list" where
  "Find r search =
     List.map_filter (\<lambda>key. map_option (Pair key) (Get r key))
       (filter (prefix search) (sort (remdups (map fst r))))"

subsection \<open>The definition-file parser\<close>

text \<open>
  Modelled from the spec: the parser of section 4.1; the parser and
  \<^verbatim>\<open>Repository.Load\<close> are in files of the package that are not part of the sources
  at hand. Content is split into lines at line feeds. Blank lines and lines whose first
  non-blank character is \<^verbatim>\<open>#\<close> are skipped, as are lines without \<^verbatim>\<open>=\<close>. In
  a definition line the key is the trimmed text before the first \<^verbatim>\<open>=\<close>, the value
  the trimmed text after it with one layer of surrounding quotes removed, and the
  recorded column is where the trimmed line begins.
\<close>

definition is_space :: "char \<Rightarrow> bool" where
  "is_space c = (c = CHR '' '' \<or> c = CHR 0x09 \<or> c = CHR 0x0D \<or> c = CHR 0x0B \<or> c = CHR 0x0C)"

definition trim :: "string \<Rightarrow> string" where
  "trim s = rev (dropWhile is_space (rev (dropWhile is_space s)))"

fun split_lines :: "string \<Rightarrow> string list" where
  "split_lines [] = [[]]"
| "split_lines (c # cs) =
     (if c = CHR 0x0A then [] # split_lines cs
      else (case split_lines cs of
              [] \<Rightarrow> [[c]]
            | l # ls \<Rightarrow> (c # l) # ls))"

definition is_quote :: "char \<Rightarrow> bool" where
  "is_quote c = (c = CHR 0x22 \<or> c = CHR 0x27)"

definition strip_quotes :: "string \<Rightarrow> string" where
  "strip_quotes s =
     (if 2 \<le> length s \<and> is_quote (hd s) \<and> last s = hd s then butlast (tl s) else s)"

definition parse_line :: "string \<Rightarrow> (string \<times> string \<times> nat) option" where
  "parse_line l =
     (let t = trim l in
      if t = [] then None
      else if hd t = CHR ''#'' then None
      else if CHR ''='' \<notin> set t then None
      else Some (trim (takeWhile (\<lambda>c. c \<noteq> CHR ''='') t),
                 strip_quotes (trim (tl (dropWhile (\<lambda>c. c \<noteq> CHR ''='') t))),
                 length (takeWhile is_space l)))"

text \<open>
  The lines are taken in textual order, each definition overriding what the snapshot
  under construction holds for its key; \<open>i\<close> is the number of the line at the head.
\<close>

fun load_lines :: "nat \<Rightarrow> string list \<Rightarrow> Repository \<Rightarrow> Repository" where
  "load_lines i [] r = r"
| "load_lines i (l # ls) r =
     load_lines (Suc i) ls
       (case parse_line l of
          None \<Rightarrow> r
        | Some (key, v, c) \<Rightarrow> AList.update key \<lparr>Value = v, Line = i, Column = c\<rparr> r)"

definition parse :: "string \<Rightarrow> Repository" where
  "parse content = load_lines 0 (split_lines content) []"

text \<open>
  Modelled from the spec: \<^verbatim>\<open>Load\<close> delegates to the parser and installs the
  resulting snapshot, replacing the previous one wholesale. It fails only when the file
  cannot be read at all, and a file that the cache has opened has been read.
\<close>

definition Load :: "File \<Rightarrow> Repository \<Rightarrow> error + Repository" where
  "Load file r = Inr (parse (Src file))"

subsection \<open>What the provider imports\<close>

text \<open>
  The functions of other packages that the provider calls: the queries over the syntax
  tree of the requesting file, the range of a syntax node, and the standard library's
  \<^verbatim>\<open>path.Join\<close>. Their code is outside this file; the provider is modelled for any
  functions of these types, \<open>'n\<close> being the type of syntax nodes. A \<^verbatim>\<open>nil\<close> node
  is \<open>None\<close>.
\<close>

record 'n Imports =
  EnvCallsInRange :: "File \<Rightarrow> Range \<Rightarrow> 'n list"
  EnvCallAtPosition :: "File \<Rightarrow> Position \<Rightarrow> 'n option"
  EnvCalls :: "File \<Rightarrow> 'n list"
  GetKey :: "'n \<Rightarrow> string \<Rightarrow> string"
  HasDefault :: "'n \<Rightarrow> bool"
  NodeRange :: "'n \<Rightarrow> Range"
  Join :: "string \<Rightarrow> string \<Rightarrow> string"

subsection \<open>Requests and published values\<close>

record BaseContext =
  CtxFile :: File
  CtxFileCache :: FileCache

record PositionContext = BaseContext +
  CtxPosition :: Position

record CodeActionContext = BaseContext +
  CtxRange :: Range

type_synonym HoverContext = PositionContext
type_synonym DefinitionContext = PositionContext
type_synonym CompletionContext = PositionContext
type_synonym DiagnosticContext = BaseContext

record provider_Hover =
  Content :: string

record Location =
  URI :: string
  LocationRange :: Range

datatype CompletionItemKind =
  CompletionItemKindText | CompletionItemKindVariable | CompletionItemKindConstant

record CompletionItem =
  Label :: string
  Detail :: string
  Kind :: CompletionItemKind

datatype DiagnosticSeverity =
  SeverityError | SeverityWarning | SeverityInformation | SeverityHint

record provider_Diagnostic =
  DiagnosticRange :: Range
  Severity :: DiagnosticSeverity
  Message :: string

text \<open>
  Modelled from the spec: a published code action is a title, a target URI, a line and
  the inserted text; the helper \<^verbatim>\<open>codeAction(uri, title, line, text)\<close> that builds it
  is in a file of the package that is not part of the sources at hand. The provider
  passes the line as a Go \<^verbatim>\<open>int\<close>, a signed integer of 64 bits; the model keeps its
  value.
\<close>

record CodeAction =
  ActionURI :: string
  Title :: string
  ActionLine :: int
  NewText :: string

definition codeAction :: "string \<Rightarrow> string \<Rightarrow> int \<Rightarrow> string \<Rightarrow> CodeAction" where
  "codeAction uri title line text =
     \<lparr>ActionURI = uri, Title = title, ActionLine = line, NewText = text\<rparr>"

subsection \<open>The provider\<close>

record Provider =
  rootPath :: string
  repo :: Repository
  exampleRepo :: Repository

definition NewProvider :: Provider where
  "NewProvider = \<lparr>rootPath = [], repo = [], exampleRepo = []\<rparr>"

text \<open>
  \<^verbatim>\<open>updateRepoFile\<close> returns its boolean together with the repository behind the
  pointer it was given.
\<close>

definition updateRepoFile :: "FileCache \<Rightarrow> string \<Rightarrow> Repository \<Rightarrow> bool \<times> Repository" where
  "updateRepoFile fc filename r =
     (case Open fc filename of
        Inl err \<Rightarrow> (False, r)
      | Inr envFile \<Rightarrow>
          (case Load envFile r of
             Inl err \<Rightarrow> (False, r)
           | Inr r' \<Rightarrow> (True, r')))"

definition updateRepo :: "'n Imports \<Rightarrow> FileCache \<Rightarrow> Provider \<Rightarrow> bool \<times> Provider" where
  "updateRepo im fc p =
     (let filename = Join im (rootPath p) ''.env'';
          p1 = p\<lparr>exampleRepo := snd (updateRepoFile fc (filename @ ''.example'') (exampleRepo p))\<rparr>;
          res = updateRepoFile fc filename (repo p1)
      in (fst res, p1\<lparr>repo := snd res\<rparr>))"

text \<open>
  The body of the loop of \<^verbatim>\<open>ResolveCodeAction\<close> for a node whose key is not empty:
  what it publishes. The increment of the row is addition modulo \<open>2 ^ 64\<close>, and the
  conversion \<^verbatim>\<open>int(endPos.Row)\<close> reads the same 64 bits as a signed integer.
\<close>

definition nodeActions :: "'n Imports \<Rightarrow> Provider \<Rightarrow> CodeActionContext \<Rightarrow> string \<Rightarrow> CodeAction list" where
  "nodeActions im p ctx key =
     (case Get (repo p) key of
        Some found \<Rightarrow> []
      | None \<Rightarrow>
          (let uri = ''file://'' @ Join im (rootPath p) ''.env'';
               envFile = CacheGet (CtxFileCache ctx) (Join im (rootPath p) ''.env'');
               endPos = EndPosition envFile;
               endPos = (if PointColumn endPos \<noteq> 0 then endPos\<lparr>Row := Row endPos + 1\<rparr> else endPos)
           in (case Get (exampleRepo p) key of
                 Some meta \<Rightarrow>
                   [codeAction uri ''Copy value from .env.example'' (sint (Row endPos)) (key @ ''='' @ Value meta)]
               | None \<Rightarrow> [])
              @ [codeAction uri ''Add value to .env file'' (sint (Row endPos)) (key @ ''='')]))"

text \<open>The loop over the nodes; an empty key returns from the method.\<close>

fun codeActions :: "'n Imports \<Rightarrow> Provider \<Rightarrow> CodeActionContext \<Rightarrow> 'n list \<Rightarrow> CodeAction list" where
  "codeActions im p ctx [] = []"
| "codeActions im p ctx (node # nodes) =
     (if length (GetKey im node (Src (CtxFile ctx))) < 1 then []
      else nodeActions im p ctx (GetKey im node (Src (CtxFile ctx))) @ codeActions im p ctx nodes)"

definition ResolveCodeAction :: "'n Imports \<Rightarrow> Provider \<Rightarrow> CodeActionContext \<Rightarrow> Provider \<times> CodeAction list" where
  "ResolveCodeAction im p ctx =
     (let nodes = EnvCallsInRange im (CtxFile ctx) (CtxRange ctx) in
      if length nodes > 0 then
        (case updateRepo im (CtxFileCache ctx) p of
           (ok, p') \<Rightarrow> if \<not> ok then (p', []) else (p', codeActions im p' ctx nodes))
      else (p, codeActions im p ctx nodes))"

definition Hover :: "'n Imports \<Rightarrow> Provider \<Rightarrow> HoverContext \<Rightarrow> Provider \<times> provider_Hover list" where
  "Hover im p ctx =
     (case EnvCallAtPosition im (CtxFile ctx) (CtxPosition ctx) of
        None \<Rightarrow> (p, [])
      | Some node \<Rightarrow>
          (case updateRepo im (CtxFileCache ctx) p of
             (ok, p') \<Rightarrow>
               if \<not> ok then (p', [])
               else
                 (let key = GetKey im node (Src (CtxFile ctx)) in
                  if length key < 1 then (p', [])
                  else
                    (p', [\<lparr>Content =
                            (case Get (repo p') key of
                               None \<Rightarrow> ''[undefined]''
                             | Some meta \<Rightarrow>
                                 if length (Value meta) < 1 then ''[empty]'' else Value meta)\<rparr>]))))"

definition ResolveDefinition :: "'n Imports \<Rightarrow> Provider \<Rightarrow> DefinitionContext \<Rightarrow> Provider \<times> Location list" where
  "ResolveDefinition im p ctx =
     (case EnvCallAtPosition im (CtxFile ctx) (CtxPosition ctx) of
        None \<Rightarrow> (p, [])
      | Some node \<Rightarrow>
          (case updateRepo im (CtxFileCache ctx) p of
             (ok, p') \<Rightarrow>
               if \<not> ok then (p', [])
               else
                 (let key = GetKey im node (Src (CtxFile ctx)) in
                  case Get (repo p') key of
                    None \<Rightarrow> (p', [])
                  | Some meta \<Rightarrow>
                      (p', [\<lparr>URI = Join im (rootPath p') ''.env'',
                             LocationRange =
                               \<lparr>Start = \<lparr>PositionLine = Line meta, Character = Column meta\<rparr>,
                                End = \<lparr>PositionLine = 0, Character = 0\<rparr>\<rparr>\<rparr>]))))"

definition ResolveCompletion :: "'n Imports \<Rightarrow> Provider \<Rightarrow> CompletionContext \<Rightarrow> Provider \<times> CompletionItem list" where
  "ResolveCompletion im p ctx =
     (case EnvCallAtPosition im (CtxFile ctx) (CtxPosition ctx) of
        None \<Rightarrow> (p, [])
      | Some node \<Rightarrow>
          (case updateRepo im (CtxFileCache ctx) p of
             (ok, p') \<Rightarrow>
               if \<not> ok then (p', [])
               else
                 (let text = GetKey im node (Src (CtxFile ctx)) in
                  (p', map (\<lambda>(key, meta).
                             \<lparr>Label = key, Detail = Value meta, Kind = CompletionItemKindConstant\<rparr>)
                         (Find (repo p') text)))))"

text \<open>The loop of \<^verbatim>\<open>Diagnostic\<close> over the captures.\<close>

fun diagnostics :: "'n Imports \<Rightarrow> Provider \<Rightarrow> DiagnosticContext \<Rightarrow> 'n list \<Rightarrow> provider_Diagnostic list" where
  "diagnostics im p ctx [] = []"
| "diagnostics im p ctx (capture # captures) =
     (if \<not> Exists (repo p) (GetKey im capture (Src (CtxFile ctx))) \<and> \<not> HasDefault im capture
      then \<lparr>DiagnosticRange = NodeRange im capture, Severity = SeverityError,
            Message = ''Environment variable is not defined''\<rparr>
           # diagnostics im p ctx captures
      else diagnostics im p ctx captures)"

definition Diagnostic :: "'n Imports \<Rightarrow> Provider \<Rightarrow> DiagnosticContext \<Rightarrow> Provider \<times> provider_Diagnostic list" where
  "Diagnostic im p ctx =
     (let captures = EnvCalls im (CtxFile ctx) in
      if length captures > 0 then
        (case updateRepo im (CtxFileCache ctx) p of
           (ok, p') \<Rightarrow> if \<not> ok then (p', []) else (p', diagnostics im p' ctx captures))
      else (p, []))"

subsection \<open>A workspace to run the provider on\<close>

text \<open>
  A concrete workspace rooted at \<^verbatim>\<open>/app\<close>, for running requests. A file's tree ends
  where its text ends. The cache holds the two definition files when contents are given
  for them, and fails to open any other path. Syntax nodes are pairs of the key that
  \<^verbatim>\<open>GetKey\<close> extracts and the answer of \<^verbatim>\<open>HasDefault\<close>; every query returns the
  given nodes, the query at a position the first of them.
\<close>

definition fixture_file :: "string \<Rightarrow> File" where
  "fixture_file s =
     \<lparr>Src = s,
      EndPosition =
        \<lparr>Row = of_nat (length (split_lines s) - 1),
         PointColumn = of_nat (length (last (split_lines s)))\<rparr>\<rparr>"

definition fixture_cache :: "string option \<Rightarrow> string option \<Rightarrow> FileCache" where
  "fixture_cache primary example =
     \<lparr>Open = (\<lambda>path.
         if path = ''/app/.env'' then
           (case primary of None \<Rightarrow> Inl ''open failed'' | Some s \<Rightarrow> Inr (fixture_file s))
         else if path = ''/app/.env.example'' then
           (case example of None \<Rightarrow> Inl ''open failed'' | Some s \<Rightarrow> Inr (fixture_file s))
         else Inl ''open failed''),
      CacheGet = (\<lambda>path. fixture_file (case primary of None \<Rightarrow> [] | Some s \<Rightarrow> s))\<rparr>"

definition fixture_imports :: "(string \<times> bool) list \<Rightarrow> (string \<times> bool) Imports" where
  "fixture_imports nodes =
     \<lparr>EnvCallsInRange = (\<lambda>f r. nodes),
      EnvCallAtPosition = (\<lambda>f pos. case nodes of [] \<Rightarrow> None | n # _ \<Rightarrow> Some n),
      EnvCalls = (\<lambda>f. nodes),
      GetKey = (\<lambda>n src. fst n),
      HasDefault = snd,
      NodeRange = (\<lambda>n. \<lparr>Start = \<lparr>PositionLine = 0, Character = 0\<rparr>,
                          End = \<lparr>PositionLine = 0, Character = length (fst n)\<rparr>\<rparr>),
      Join = (\<lambda>a b. a @ ''/'' @ b)\<rparr>"

definition fixture_provider :: Provider where
  "fixture_provider = NewProvider\<lparr>rootPath := ''/app''\<rparr>"

definition fixture_ctx :: "string option \<Rightarrow> string option \<Rightarrow> BaseContext" where
  "fixture_ctx primary example =
     \<lparr>CtxFile = fixture_file ''<?php'', CtxFileCache = fixture_cache primary example\<rparr>"

definition fixture_pctx :: "string option \<Rightarrow> string option \<Rightarrow> PositionContext" where
  "fixture_pctx primary example =
     \<lparr>CtxFile = fixture_file ''<?php'', CtxFileCache = fixture_cache primary example,
      CtxPosition = \<lparr>PositionLine = 0, Character = 0\<rparr>\<rparr>"

definition fixture_actx :: "string option \<Rightarrow> string option \<Rightarrow> CodeActionContext" where
  "fixture_actx primary example =
     \<lparr>CtxFile = fixture_file ''<?php'', CtxFileCache = fixture_cache primary example,
      CtxRange = \<lparr>Start = \<lparr>PositionLine = 0, Character = 0\<rparr>,
                  End = \<lparr>PositionLine = 0, Character = 0\<rparr>\<rparr>\<rparr>"

text \<open>The two definition files of the end-to-end example.\<close>

definition primary_content :: string where
  "primary_content = ''APP_NAME=Laravel'' @ [CHR 0x0A] @ ''APP_DEBUG=true'' @ [CHR 0x0A]"

definition example_content :: string where
  "example_content = ''APP_NAME='' @ [CHR 0x0A] @ ''APP_KEY='' @ [CHR 0x0A]"

text \<open>A definition file in which a key is defined twice.\<close>

definition override_content :: string where
  "override_content = ''A=1'' @ [CHR 0x0A] @ ''A=3'' @ [CHR 0x0A] @ ''B=2''"



subsection \<open>Facts about the repository\<close>

lemma Get_update: "Get (AList.update k m r) k' = (if k' = k then Some m else Get r k')"
  by (simp add: Get_def update_conv')

lemma load_lines_untouched:
  "\<forall>l \<in> set ls. \<forall>v c. parse_line l \<noteq> Some (k, v, c) \<Longrightarrow>
   Get (load_lines i ls r) k = Get r k"
proof (induction ls arbitrary: i r)
  case Nil
  then show ?case by simp
next
  case (Cons l ls)
  have rest: "\<forall>l' \<in> set ls. \<forall>v c. parse_line l' \<noteq> Some (k, v, c)"
    using Cons.prems by simp
  have here: "\<forall>v c. parse_line l \<noteq> Some (k, v, c)"
    using Cons.prems by simp
  show ?case
  proof (cases "parse_line l")
    case None
    then show ?thesis using Cons.IH [OF rest] by simp
  next
    case (Some t)
    obtain k' v' c' where t: "t = (k', v', c')" by (cases t) auto
    with Some here have "k' \<noteq> k" by auto
    then show ?thesis using Some t Cons.IH [OF rest] by (simp add: Get_update)
  qed
qed

lemma load_lines_last:
  "j < length ls \<Longrightarrow> parse_line (ls ! j) = Some (k, v, c) \<Longrightarrow>
   \<forall>j'. j < j' \<and> j' < length ls \<longrightarrow> (\<forall>v' c'. parse_line (ls ! j') \<noteq> Some (k, v', c')) \<Longrightarrow>
   Get (load_lines i ls r) k = Some \<lparr>Value = v, Line = i + j, Column = c\<rparr>"
proof (induction ls arbitrary: i j r)
  case Nil
  then show ?case by simp
next
  case (Cons l ls)
  show ?case
  proof (cases j)
    case 0
    have "\<forall>l' \<in> set ls. \<forall>v' c'. parse_line l' \<noteq> Some (k, v', c')"
    proof
      fix l' assume "l' \<in> set ls"
      then obtain n where n: "n < length ls" "ls ! n = l'"
        by (auto simp: in_set_conv_nth)
      then have "\<forall>v' c'. parse_line ((l # ls) ! Suc n) \<noteq> Some (k, v', c')"
        using Cons.prems(3) 0 by (metis length_Cons Suc_less_eq zero_less_Suc)
      with n show "\<forall>v' c'. parse_line l' \<noteq> Some (k, v', c')" by simp
    qed
    from load_lines_untouched [OF this] Cons.prems(2) 0
    show ?thesis by (simp add: Get_update)
  next
    case (Suc n)
    have a: "n < length ls" using Cons.prems(1) Suc by simp
    have b: "parse_line (ls ! n) = Some (k, v, c)" using Cons.prems(2) Suc by simp
    have c: "\<forall>j'. n < j' \<and> j' < length ls \<longrightarrow>
               (\<forall>v' c'. parse_line (ls ! j') \<noteq> Some (k, v', c'))"
    proof (rule allI, rule impI)
      fix j' assume "n < j' \<and> j' < length ls"
      then have "j < Suc j' \<and> Suc j' < length (l # ls)" using Suc by simp
      then have "\<forall>v' c'. parse_line ((l # ls) ! Suc j') \<noteq> Some (k, v', c')"
        using Cons.prems(3) by blast
      then show "\<forall>v' c'. parse_line (ls ! j') \<noteq> Some (k, v', c')" by simp
    qed
    show ?thesis using Cons.IH [OF a b c] Suc by simp
  qed
qed

subsection \<open>Facts about the refresh\<close>

lemma updateRepoFile_failed:
  "\<not> fst (updateRepoFile fc filename r) \<Longrightarrow> snd (updateRepoFile fc filename r) = r"
  by (simp add: updateRepoFile_def split: sum.splits)

lemma updateRepo_rootPath: "rootPath (snd (updateRepo im fc p)) = rootPath p"
  by (simp add: updateRepo_def Let_def)

lemma updateRepo_exampleRepo:
  "exampleRepo (snd (updateRepo im fc p)) =
   snd (updateRepoFile fc (Join im (rootPath p) ''.env'' @ ''.example'') (exampleRepo p))"
  by (simp add: updateRepo_def Let_def)

subsection \<open>Facts about \<open>Find\<close>\<close>

lemma Get_Some_iff: "(\<exists>m. Get r k = Some m) \<longleftrightarrow> k \<in> fst ` set r"
  by (metis Get_def map_of_eq_None_iff not_None_eq)

lemma map_filter_keys:
  "\<forall>k \<in> set ks. g k \<noteq> None \<Longrightarrow>
   map fst (List.map_filter (\<lambda>k. map_option (Pair k) (g k)) ks) = ks"
  by (induction ks) (auto simp: List.map_filter_simps split: option.splits)

lemma Find_keys: "map fst (Find r s) = filter (prefix s) (sort (remdups (map fst r)))"
proof -
  have "\<forall>k \<in> set (filter (prefix s) (sort (remdups (map fst r)))). Get r k \<noteq> None"
    using Get_Some_iff [of r] by auto
  then show ?thesis unfolding Find_def by (rule map_filter_keys)
qed

lemma Find_entry: "(k, m) \<in> set (Find r s) \<Longrightarrow> Get r k = Some m"
  by (auto simp: Find_def List.map_filter_def)

lemma Find_sorted: "sorted_wrt (<) (map fst (Find r s))"
proof -
  have "sorted (filter (prefix s) (sort (remdups (map fst r))))"
    by (simp add: sorted_wrt_filter)
  moreover have "distinct (filter (prefix s) (sort (remdups (map fst r))))"
    by simp
  ultimately show ?thesis
    by (simp add: Find_keys strict_sorted_iff)
qed

lemma Find_set: "set (map fst (Find r s)) = {k. (\<exists>m. Get r k = Some m) \<and> prefix s k}"
  unfolding Find_keys Get_Some_iff by auto

subsection \<open>Facts about the workspace\<close>

lemma fixture_GetKey: "GetKey (fixture_imports ns) n src = fst n"
  by (simp add: fixture_imports_def)

lemma fixture_Join: "Join (fixture_imports ns) a b = a @ ''/'' @ b"
  by (simp add: fixture_imports_def)

lemma fixture_EnvCallsInRange: "EnvCallsInRange (fixture_imports ns) f r = ns"
  by (simp add: fixture_imports_def)

lemma fixture_EnvCallAtPosition: "EnvCallAtPosition (fixture_imports (n # ns)) f pos = Some n"
  by (simp add: fixture_imports_def)

lemma fixture_rootPath: "rootPath fixture_provider = ''/app''"
  by (simp add: fixture_provider_def)

subsection \<open>Last occurrence wins\<close>

text \<open>
  C4. When line \<open>i\<close> of the content defines key \<open>k\<close> with value \<open>v\<close> at column
  \<open>c\<close>, and no later line defines \<open>k\<close>, then after loading the content the
  repository's \<open>Get\<close> for \<open>k\<close> returns the value \<open>v\<close> and the position
  \<open>(i, c)\<close>: whatever earlier lines define for the same key, the last textual
  occurrence determines both the value and the recorded position.
\<close>

theorem Load_last_occurrence_wins:
  assumes "i < length (split_lines (Src file))"
    and "parse_line (split_lines (Src file) ! i) = Some (k, v, c)"
    and "\<forall>j. i < j \<and> j < length (split_lines (Src file)) \<longrightarrow>
           (\<forall>v' c'. parse_line (split_lines (Src file) ! j) \<noteq> Some (k, v', c'))"
  shows "\<exists>r'. Load file r = Inr r' \<and> Get r' k = Some \<lparr>Value = v, Line = i, Column = c\<rparr>"
  using load_lines_last [OF assms, of 0 "[]"] by (simp add: Load_def parse_def)

theorem Load_last_occurrence_wins_witness:
  "\<exists>r'. Load (fixture_file override_content) [] = Inr r' \<and>
        Get r' ''A'' = Some \<lparr>Value = ''3'', Line = 1, Column = 0\<rparr>"
proof -
  have len: "length (split_lines (Src (fixture_file override_content))) = 3"
    by code_simp
  have a: "1 < length (split_lines (Src (fixture_file override_content)))"
    by (simp add: len)
  have b: "parse_line (split_lines (Src (fixture_file override_content)) ! 1) = Some (''A'', ''3'', 0)"
    by code_simp
  have l2: "parse_line (split_lines (Src (fixture_file override_content)) ! 2) = Some (''B'', ''2'', 0)"
    by code_simp
  have c: "\<forall>j. 1 < j \<and> j < length (split_lines (Src (fixture_file override_content))) \<longrightarrow>
             (\<forall>v' c'. parse_line (split_lines (Src (fixture_file override_content)) ! j)
                \<noteq> Some (''A'', v', c'))"
  proof (rule allI, rule impI)
    fix j
    assume "1 < j \<and> j < length (split_lines (Src (fixture_file override_content)))"
    then have "j = 2" using len by arith
    then show "\<forall>v' c'. parse_line (split_lines (Src (fixture_file override_content)) ! j)
                \<noteq> Some (''A'', v', c')"
      using l2 by simp
  qed
  show ?thesis by (rule Load_last_occurrence_wins [OF a b c])
qed

subsection \<open>Hover\<close>

text \<open>
  C1. For a hover request whose node yields a non-empty key \<open>k\<close>, after a successful
  refresh that leaves the provider in state \<open>p'\<close>, exactly one hover is published, and
  its content is \<^verbatim>\<open>[undefined]\<close> when \<open>k\<close> is absent from the primary repository of
  \<open>p'\<close>, \<^verbatim>\<open>[empty]\<close> when \<open>k\<close> is present with an empty value, and the value
  itself when \<open>k\<close> is present with a non-empty value.
\<close>

theorem Hover_content:
  assumes "EnvCallAtPosition im (CtxFile ctx) (CtxPosition ctx) = Some node"
    and "updateRepo im (CtxFileCache ctx) p = (True, p')"
    and "GetKey im node (Src (CtxFile ctx)) = k"
    and "k \<noteq> []"
  shows "(Get (repo p') k = None \<longrightarrow> snd (Hover im p ctx) = [\<lparr>Content = ''[undefined]''\<rparr>]) \<and>
         (\<forall>m. Get (repo p') k = Some m \<and> Value m = [] \<longrightarrow>
              snd (Hover im p ctx) = [\<lparr>Content = ''[empty]''\<rparr>]) \<and>
         (\<forall>m. Get (repo p') k = Some m \<and> Value m \<noteq> [] \<longrightarrow>
              snd (Hover im p ctx) = [\<lparr>Content = Value m\<rparr>])"
  using assms by (simp add: Hover_def)

theorem Hover_content_witness:
  "snd (Hover (fixture_imports [(''APP_NAME'', False)]) fixture_provider
          (fixture_pctx (Some primary_content) (Some example_content))) = [\<lparr>Content = ''Laravel''\<rparr>] \<and>
   snd (Hover (fixture_imports [(''APP_KEY'', False)]) fixture_provider
          (fixture_pctx (Some primary_content) (Some example_content))) = [\<lparr>Content = ''[undefined]''\<rparr>] \<and>
   snd (Hover (fixture_imports [(''APP_NAME'', False)]) fixture_provider
          (fixture_pctx (Some example_content) None)) = [\<lparr>Content = ''[empty]''\<rparr>]"
proof -
  let ?ctx = "fixture_pctx (Some primary_content) (Some example_content)"
  let ?ctx' = "fixture_pctx (Some example_content) None"
  let ?name = "fixture_imports [(''APP_NAME'', False)]"
  let ?key = "fixture_imports [(''APP_KEY'', False)]"
  have n1: "EnvCallAtPosition ?name (CtxFile ?ctx) (CtxPosition ?ctx) = Some (''APP_NAME'', False)"
    by (simp add: fixture_imports_def)
  have n2: "EnvCallAtPosition ?key (CtxFile ?ctx) (CtxPosition ?ctx) = Some (''APP_KEY'', False)"
    by (simp add: fixture_imports_def)
  have n3: "EnvCallAtPosition ?name (CtxFile ?ctx') (CtxPosition ?ctx') = Some (''APP_NAME'', False)"
    by (simp add: fixture_imports_def)
  have k1: "GetKey ?name (''APP_NAME'', False) (Src (CtxFile ?ctx)) = ''APP_NAME''"
    by (simp add: fixture_imports_def)
  have k2: "GetKey ?key (''APP_KEY'', False) (Src (CtxFile ?ctx)) = ''APP_KEY''"
    by (simp add: fixture_imports_def)
  have k3: "GetKey ?name (''APP_NAME'', False) (Src (CtxFile ?ctx')) = ''APP_NAME''"
    by (simp add: fixture_imports_def)
  have "fst (updateRepo ?name (CtxFileCache ?ctx) fixture_provider)" by code_simp
  then have u1: "updateRepo ?name (CtxFileCache ?ctx) fixture_provider =
      (True, snd (updateRepo ?name (CtxFileCache ?ctx) fixture_provider))"
    by (simp add: prod_eq_iff)
  have "fst (updateRepo ?key (CtxFileCache ?ctx) fixture_provider)" by code_simp
  then have u2: "updateRepo ?key (CtxFileCache ?ctx) fixture_provider =
      (True, snd (updateRepo ?key (CtxFileCache ?ctx) fixture_provider))"
    by (simp add: prod_eq_iff)
  have "fst (updateRepo ?name (CtxFileCache ?ctx') fixture_provider)" by code_simp
  then have u3: "updateRepo ?name (CtxFileCache ?ctx') fixture_provider =
      (True, snd (updateRepo ?name (CtxFileCache ?ctx') fixture_provider))"
    by (simp add: prod_eq_iff)
  have g1: "Get (repo (snd (updateRepo ?name (CtxFileCache ?ctx) fixture_provider))) ''APP_NAME'' =
      Some \<lparr>Value = ''Laravel'', Line = 0, Column = 0\<rparr>"
    by code_simp
  have g2: "Get (repo (snd (updateRepo ?key (CtxFileCache ?ctx) fixture_provider))) ''APP_KEY'' = None"
    by code_simp
  have g3: "Get (repo (snd (updateRepo ?name (CtxFileCache ?ctx') fixture_provider))) ''APP_NAME'' =
      Some \<lparr>Value = [], Line = 0, Column = 0\<rparr>"
    by code_simp
  show ?thesis
    using Hover_content [OF n1 u1 k1] Hover_content [OF n2 u2 k2] Hover_content [OF n3 u3 k3]
      g1 g2 g3
    by simp
qed

subsection \<open>Diagnostics\<close>

lemma diagnostics_filter:
  "diagnostics im p ctx ns =
   map (\<lambda>n. \<lparr>DiagnosticRange = NodeRange im n, Severity = SeverityError,
              Message = ''Environment variable is not defined''\<rparr>)
     (filter (\<lambda>n. \<not> Exists (repo p) (GetKey im n (Src (CtxFile ctx))) \<and> \<not> HasDefault im n) ns)"
  by (induction ns) simp_all

text \<open>
  C2. After a successful refresh that leaves the provider in state \<open>p'\<close>, the published
  diagnostics are, in the order of the nodes, one error-severity diagnostic at the
  node's range for exactly those \<^verbatim>\<open>env\<close> calls of the file whose key does not exist
  in the primary repository of \<open>p'\<close> and that have no default argument. A node with a
  default argument gets no diagnostic, whether or not its key is defined.
\<close>

theorem Diagnostic_published:
  assumes "updateRepo im (CtxFileCache ctx) p = (True, p')"
  shows "snd (Diagnostic im p ctx) =
         map (\<lambda>n. \<lparr>DiagnosticRange = NodeRange im n, Severity = SeverityError,
                    Message = ''Environment variable is not defined''\<rparr>)
           (filter (\<lambda>n. \<not> Exists (repo p') (GetKey im n (Src (CtxFile ctx))) \<and> \<not> HasDefault im n)
              (EnvCalls im (CtxFile ctx)))"
  using assms by (simp add: Diagnostic_def Let_def diagnostics_filter)

theorem Diagnostic_published_witness:
  "snd (Diagnostic
          (fixture_imports [(''MISSING_KEY'', False), (''APP_NAME'', False), (''OTHER_KEY'', True)])
          fixture_provider (fixture_ctx (Some primary_content) (Some example_content))) =
   [\<lparr>DiagnosticRange = \<lparr>Start = \<lparr>PositionLine = 0, Character = 0\<rparr>,
                         End = \<lparr>PositionLine = 0, Character = 11\<rparr>\<rparr>,
     Severity = SeverityError, Message = ''Environment variable is not defined''\<rparr>]"
proof -
  let ?im = "fixture_imports [(''MISSING_KEY'', False), (''APP_NAME'', False), (''OTHER_KEY'', True)]"
  let ?ctx = "fixture_ctx (Some primary_content) (Some example_content)"
  let ?p' = "snd (updateRepo ?im (CtxFileCache ?ctx) fixture_provider)"
  have "fst (updateRepo ?im (CtxFileCache ?ctx) fixture_provider)" by code_simp
  then have u: "updateRepo ?im (CtxFileCache ?ctx) fixture_provider = (True, ?p')"
    by (simp add: prod_eq_iff)
  have e1: "\<not> Exists (repo ?p') ''MISSING_KEY''" by code_simp
  have e2: "Exists (repo ?p') ''APP_NAME''" by code_simp
  have e3: "\<not> Exists (repo ?p') ''OTHER_KEY''" by code_simp
  show ?thesis
    unfolding Diagnostic_published [OF u] using e1 e2 e3
    by (simp add: fixture_imports_def)
qed

subsection \<open>Completion\<close>

text \<open>
  C3. For a completion request with partially typed key text \<open>k\<close>, after a successful
  refresh that leaves the provider in state \<open>p'\<close>: the labels of the published items
  are strictly ascending (so no key appears twice), they are exactly the keys of the
  primary repository of \<open>p'\<close> that start with \<open>k\<close>, and every item carries the value
  of its key as detail and the kind constant.
\<close>

theorem ResolveCompletion_items:
  assumes "EnvCallAtPosition im (CtxFile ctx) (CtxPosition ctx) = Some node"
    and "updateRepo im (CtxFileCache ctx) p = (True, p')"
    and "GetKey im node (Src (CtxFile ctx)) = k"
  shows "sorted_wrt (<) (map Label (snd (ResolveCompletion im p ctx))) \<and>
         set (map Label (snd (ResolveCompletion im p ctx))) =
           {key. (\<exists>m. Get (repo p') key = Some m) \<and> prefix k key} \<and>
         (\<forall>item \<in> set (snd (ResolveCompletion im p ctx)).
            \<exists>m. Get (repo p') (Label item) = Some m \<and> Detail item = Value m \<and>
                Kind item = CompletionItemKindConstant)"
proof -
  let ?item = "\<lambda>(key, meta). \<lparr>Label = key, Detail = Value meta, Kind = CompletionItemKindConstant\<rparr>"
  have out: "snd (ResolveCompletion im p ctx) = map ?item (Find (repo p') k)"
    using assms by (simp add: ResolveCompletion_def)
  have labels: "map Label (map ?item (Find (repo p') k)) = map fst (Find (repo p') k)"
    by (simp add: case_prod_unfold)
  have "sorted_wrt (<) (map Label (snd (ResolveCompletion im p ctx)))"
    unfolding out labels by (rule Find_sorted)
  moreover have "set (map Label (snd (ResolveCompletion im p ctx))) =
           {key. (\<exists>m. Get (repo p') key = Some m) \<and> prefix k key}"
    unfolding out labels by (rule Find_set)
  moreover have "\<forall>item \<in> set (snd (ResolveCompletion im p ctx)).
            \<exists>m. Get (repo p') (Label item) = Some m \<and> Detail item = Value m \<and>
                Kind item = CompletionItemKindConstant"
    unfolding out by (auto dest: Find_entry)
  ultimately show ?thesis by blast
qed

theorem ResolveCompletion_items_witness:
  "map Label (snd (ResolveCompletion (fixture_imports [(''APP_'', False)]) fixture_provider
          (fixture_pctx (Some (primary_content @ ''DB_HOST=localhost'')) (Some example_content))))
     = [''APP_DEBUG'', ''APP_NAME''] \<and>
   sorted_wrt (<) [''APP_DEBUG'', ''APP_NAME'']"
proof -
  let ?im = "fixture_imports [(''APP_'', False)]"
  let ?ctx = "fixture_pctx (Some (primary_content @ ''DB_HOST=localhost'')) (Some example_content)"
  let ?p' = "snd (updateRepo ?im (CtxFileCache ?ctx) fixture_provider)"
  have n: "EnvCallAtPosition ?im (CtxFile ?ctx) (CtxPosition ?ctx) = Some (''APP_'', False)"
    by (simp add: fixture_imports_def)
  have k: "GetKey ?im (''APP_'', False) (Src (CtxFile ?ctx)) = ''APP_''"
    by (simp add: fixture_imports_def)
  have "fst (updateRepo ?im (CtxFileCache ?ctx) fixture_provider)" by code_simp
  then have u: "updateRepo ?im (CtxFileCache ?ctx) fixture_provider = (True, ?p')"
    by (simp add: prod_eq_iff)
  have out: "map Label (snd (ResolveCompletion ?im fixture_provider ?ctx)) = [''APP_DEBUG'', ''APP_NAME'']"
    by code_simp
  show ?thesis
    using ResolveCompletion_items [OF n u k] out by simp
qed

subsection \<open>Refresh failures\<close>




subsection \<open>Quick-fix code actions\<close>

lemma codeActions_takeWhile:
  "codeActions im p ctx ns =
   concat (map (\<lambda>n. nodeActions im p ctx (GetKey im n (Src (CtxFile ctx))))
             (takeWhile (\<lambda>n. GetKey im n (Src (CtxFile ctx)) \<noteq> []) ns))"
  by (induction ns) simp_all

lemma ResolveCodeAction_ok:
  "updateRepo im (CtxFileCache ctx) p = (True, p') \<Longrightarrow>
   snd (ResolveCodeAction im p ctx) =
   codeActions im p' ctx (EnvCallsInRange im (CtxFile ctx) (CtxRange ctx))"
  by (cases "EnvCallsInRange im (CtxFile ctx) (CtxRange ctx)")
     (simp_all add: ResolveCodeAction_def Let_def)

text \<open>
  A request whose first node has an empty key and whose second node has the key
  \<^verbatim>\<open>APP_KEY\<close>, absent from the primary repository, publishes nothing: the loop
  returns at the empty key and never reaches the second node.
\<close>

theorem later_node_skipped_counterexample:
  "EnvCallsInRange (fixture_imports [([], False), (''APP_KEY'', False)])
     (CtxFile (fixture_actx (Some primary_content) (Some example_content)))
     (CtxRange (fixture_actx (Some primary_content) (Some example_content))) =
     [([], False), (''APP_KEY'', False)] \<and>
   GetKey (fixture_imports [([], False), (''APP_KEY'', False)]) (''APP_KEY'', False)
     (Src (CtxFile (fixture_actx (Some primary_content) (Some example_content)))) = ''APP_KEY'' \<and>
   Get (repo (fst (ResolveCodeAction (fixture_imports [([], False), (''APP_KEY'', False)])
          fixture_provider (fixture_actx (Some primary_content) (Some example_content)))))
     ''APP_KEY'' = None \<and>
   snd (ResolveCodeAction (fixture_imports [([], False), (''APP_KEY'', False)])
          fixture_provider (fixture_actx (Some primary_content) (Some example_content))) = []"
  by code_simp

text \<open>
  C6, amended. After a successful refresh that leaves the provider in state \<open>p'\<close>, the
  published code actions are, node by node in the order of the nodes in the requested
  range and up to the first node whose key is empty: nothing for a node whose key is
  present in the primary repository of \<open>p'\<close>; for a node whose key \<open>k\<close> is absent, an
  action titled \<^verbatim>\<open>Copy value from .env.example\<close> inserting \<open>k\<close>, \<^verbatim>\<open>=\<close> and the
  example value exactly when \<open>k\<close> is present in the example repository of \<open>p'\<close>,
  followed in every case by an action titled \<^verbatim>\<open>Add value to .env file\<close> inserting
  \<open>k\<close> and \<^verbatim>\<open>=\<close>. Both target the primary file at the line the code computes from
  the end of its tree. Nothing is published for the node whose key is empty or for any
  node after it.
\<close>

theorem ResolveCodeAction_actions:
  assumes "updateRepo im (CtxFileCache ctx) p = (True, p')"
    and "uri = ''file://'' @ Join im (rootPath p) ''.env''"
    and "e = EndPosition (CacheGet (CtxFileCache ctx) (Join im (rootPath p) ''.env''))"
    and "row = sint (if PointColumn e = 0 then Row e else Row e + 1)"
  shows "snd (ResolveCodeAction im p ctx) =
         concat (map (\<lambda>n.
             (case Get (repo p') (GetKey im n (Src (CtxFile ctx))) of
                Some found \<Rightarrow> []
              | None \<Rightarrow>
                  (case Get (exampleRepo p') (GetKey im n (Src (CtxFile ctx))) of
                     Some meta \<Rightarrow>
                       [\<lparr>ActionURI = uri, Title = ''Copy value from .env.example'', ActionLine = row,
                         NewText = GetKey im n (Src (CtxFile ctx)) @ ''='' @ Value meta\<rparr>]
                   | None \<Rightarrow> [])
                  @ [\<lparr>ActionURI = uri, Title = ''Add value to .env file'', ActionLine = row,
                       NewText = GetKey im n (Src (CtxFile ctx)) @ ''=''\<rparr>]))
           (takeWhile (\<lambda>n. GetKey im n (Src (CtxFile ctx)) \<noteq> [])
              (EnvCallsInRange im (CtxFile ctx) (CtxRange ctx))))"
proof -
  have root: "rootPath p' = rootPath p"
    using updateRepo_rootPath [of im "CtxFileCache ctx" p] assms(1) by simp
  have body: "nodeActions im p' ctx k =
      (case Get (repo p') k of
         Some found \<Rightarrow> []
       | None \<Rightarrow>
           (case Get (exampleRepo p') k of
              Some meta \<Rightarrow>
                [\<lparr>ActionURI = uri, Title = ''Copy value from .env.example'', ActionLine = row,
                  NewText = k @ ''='' @ Value meta\<rparr>]
            | None \<Rightarrow> [])
           @ [\<lparr>ActionURI = uri, Title = ''Add value to .env file'', ActionLine = row,
                NewText = k @ ''=''\<rparr>])" for k
    using assms(2-4) by (simp add: nodeActions_def codeAction_def root Let_def split: option.splits)
  show ?thesis
    unfolding ResolveCodeAction_ok [OF assms(1)] codeActions_takeWhile body ..
qed

theorem ResolveCodeAction_actions_witness:
  "snd (ResolveCodeAction
          (fixture_imports [(''APP_KEY'', False), (''APP_NAME'', False), (''NEW_KEY'', False),
                            ([], False), (''LATE_KEY'', False)])
          fixture_provider (fixture_actx (Some primary_content) (Some example_content))) =
     [\<lparr>ActionURI = ''file:///app/.env'', Title = ''Copy value from .env.example'',
        ActionLine = 2, NewText = ''APP_KEY=''\<rparr>,
      \<lparr>ActionURI = ''file:///app/.env'', Title = ''Add value to .env file'',
        ActionLine = 2, NewText = ''APP_KEY=''\<rparr>,
      \<lparr>ActionURI = ''file:///app/.env'', Title = ''Add value to .env file'',
        ActionLine = 2, NewText = ''NEW_KEY=''\<rparr>]"
proof -
  let ?im = "fixture_imports [(''APP_KEY'', False), (''APP_NAME'', False), (''NEW_KEY'', False),
                            ([], False), (''LATE_KEY'', False)]"
  let ?ctx = "fixture_actx (Some primary_content) (Some example_content)"
  let ?p' = "snd (updateRepo ?im (CtxFileCache ?ctx) fixture_provider)"
  have "fst (updateRepo ?im (CtxFileCache ?ctx) fixture_provider)" by code_simp
  then have u: "updateRepo ?im (CtxFileCache ?ctx) fixture_provider = (True, ?p')"
    by (simp add: prod_eq_iff)
  have g1: "Get (repo ?p') ''APP_KEY'' = None" by code_simp
  have g2: "Get (repo ?p') ''APP_NAME'' = Some \<lparr>Value = ''Laravel'', Line = 0, Column = 0\<rparr>"
    by code_simp
  have g3: "Get (repo ?p') ''NEW_KEY'' = None" by code_simp
  have x1: "Get (exampleRepo ?p') ''APP_KEY'' = Some \<lparr>Value = [], Line = 1, Column = 0\<rparr>"
    by code_simp
  have x3: "Get (exampleRepo ?p') ''NEW_KEY'' = None" by code_simp
  have e: "EndPosition (CacheGet (CtxFileCache ?ctx) ''/app/.env'') = \<lparr>Row = 2, PointColumn = 0\<rparr>"
    by code_simp
  show ?thesis
    unfolding ResolveCodeAction_actions [OF u refl refl refl]
    by (simp add: fixture_GetKey fixture_Join fixture_EnvCallsInRange fixture_rootPath
        g1 g2 g3 x1 x3 e)
qed

subsection \<open>The insertion row\<close>









subsection \<open>Definition\<close>

text \<open>
  C9. For a definition request whose node yields the key \<open>k\<close>, after a successful
  refresh that leaves the provider in state \<open>p'\<close>: when \<open>k\<close> is present in the
  primary repository of \<open>p'\<close>, exactly one location is published, whose URI is the path
  of the primary file and whose range starts at the stored line and column of \<open>k\<close>, the
  end of the range being left at its zero value; when \<open>k\<close> is absent, nothing is
  published.
\<close>

theorem ResolveDefinition_location:
  assumes "EnvCallAtPosition im (CtxFile ctx) (CtxPosition ctx) = Some node"
    and "updateRepo im (CtxFileCache ctx) p = (True, p')"
    and "GetKey im node (Src (CtxFile ctx)) = k"
  shows "(\<forall>m. Get (repo p') k = Some m \<longrightarrow>
            snd (ResolveDefinition im p ctx) =
              [\<lparr>URI = Join im (rootPath p) ''.env'',
                LocationRange =
                  \<lparr>Start = \<lparr>PositionLine = Line m, Character = Column m\<rparr>,
                   End = \<lparr>PositionLine = 0, Character = 0\<rparr>\<rparr>\<rparr>]) \<and>
         (Get (repo p') k = None \<longrightarrow> snd (ResolveDefinition im p ctx) = [])"
proof -
  have root: "rootPath p' = rootPath p"
    using updateRepo_rootPath [of im "CtxFileCache ctx" p] assms(2) by simp
  show ?thesis using assms by (simp add: ResolveDefinition_def root)
qed

theorem ResolveDefinition_location_witness:
  "snd (ResolveDefinition (fixture_imports [(''APP_DEBUG'', False)]) fixture_provider
          (fixture_pctx (Some primary_content) (Some example_content))) =
     [\<lparr>URI = ''/app/.env'',
       LocationRange = \<lparr>Start = \<lparr>PositionLine = 1, Character = 0\<rparr>,
                         End = \<lparr>PositionLine = 0, Character = 0\<rparr>\<rparr>\<rparr>] \<and>
   snd (ResolveDefinition (fixture_imports [(''APP_KEY'', False)]) fixture_provider
          (fixture_pctx (Some primary_content) (Some example_content))) = []"
proof -
  let ?im1 = "fixture_imports [(''APP_DEBUG'', False)]"
  let ?im2 = "fixture_imports [(''APP_KEY'', False)]"
  let ?ctx = "fixture_pctx (Some primary_content) (Some example_content)"
  have "fst (updateRepo ?im1 (CtxFileCache ?ctx) fixture_provider)" by code_simp
  then have u1: "updateRepo ?im1 (CtxFileCache ?ctx) fixture_provider =
      (True, snd (updateRepo ?im1 (CtxFileCache ?ctx) fixture_provider))"
    by (simp add: prod_eq_iff)
  have "fst (updateRepo ?im2 (CtxFileCache ?ctx) fixture_provider)" by code_simp
  then have u2: "updateRepo ?im2 (CtxFileCache ?ctx) fixture_provider =
      (True, snd (updateRepo ?im2 (CtxFileCache ?ctx) fixture_provider))"
    by (simp add: prod_eq_iff)
  have g1: "Get (repo (snd (updateRepo ?im1 (CtxFileCache ?ctx) fixture_provider))) ''APP_DEBUG'' =
      Some \<lparr>Value = ''true'', Line = 1, Column = 0\<rparr>"
    by code_simp
  have g2: "Get (repo (snd (updateRepo ?im2 (CtxFileCache ?ctx) fixture_provider))) ''APP_KEY'' = None"
    by code_simp
  show ?thesis
    using ResolveDefinition_location [OF fixture_EnvCallAtPosition u1 fixture_GetKey]
      ResolveDefinition_location [OF fixture_EnvCallAtPosition u2 fixture_GetKey] g1 g2
    by (simp add: fixture_Join fixture_rootPath)
qed

subsection \<open>State effects of an aborted request\<close>

lemma updateRepo_primary_failed:
  "\<not> fst (updateRepoFile fc (Join im (rootPath p) ''.env'') (repo p)) \<Longrightarrow>
   updateRepo im fc p =
     (False, p\<lparr>exampleRepo :=
        snd (updateRepoFile fc (Join im (rootPath p) ''.env'' @ ''.example'') (exampleRepo p))\<rparr>)"
  using updateRepoFile_failed [of fc "Join im (rootPath p) ''.env''" "repo p"]
  by (simp add: updateRepo_def Let_def)

lemma Hover_provider:
  "EnvCallAtPosition im (CtxFile ctx) (CtxPosition ctx) \<noteq> None \<Longrightarrow>
   fst (Hover im p ctx) = snd (updateRepo im (CtxFileCache ctx) p)"
  by (auto simp: Hover_def Let_def split: prod.splits)

lemma ResolveDefinition_provider:
  "EnvCallAtPosition im (CtxFile ctx) (CtxPosition ctx) \<noteq> None \<Longrightarrow>
   fst (ResolveDefinition im p ctx) = snd (updateRepo im (CtxFileCache ctx) p)"
  by (auto simp: ResolveDefinition_def Let_def split: prod.splits option.splits)

lemma ResolveCompletion_provider:
  "EnvCallAtPosition im (CtxFile ctx) (CtxPosition ctx) \<noteq> None \<Longrightarrow>
   fst (ResolveCompletion im p ctx) = snd (updateRepo im (CtxFileCache ctx) p)"
  by (auto simp: ResolveCompletion_def Let_def split: prod.splits)

lemma Diagnostic_provider:
  "EnvCalls im (CtxFile ctx) \<noteq> [] \<Longrightarrow>
   fst (Diagnostic im p ctx) = snd (updateRepo im (CtxFileCache ctx) p)"
  by (auto simp: Diagnostic_def Let_def split: prod.splits)

lemma ResolveCodeAction_provider:
  "EnvCallsInRange im (CtxFile ctx) (CtxRange ctx) \<noteq> [] \<Longrightarrow>
   fst (ResolveCodeAction im p ctx) = snd (updateRepo im (CtxFileCache ctx) p)"
  by (auto simp: ResolveCodeAction_def Let_def split: prod.splits)

lemma Hover_aborted:
  "\<not> fst (updateRepoFile (CtxFileCache ctx) (Join im (rootPath p) ''.env'') (repo p)) \<Longrightarrow>
   EnvCallAtPosition im (CtxFile ctx) (CtxPosition ctx) \<noteq> None \<Longrightarrow>
   Hover im p ctx =
     (p\<lparr>exampleRepo :=
        snd (updateRepoFile (CtxFileCache ctx) (Join im (rootPath p) ''.env'' @ ''.example'') (exampleRepo p))\<rparr>, [])"
  by (auto simp: Hover_def updateRepo_primary_failed)

lemma ResolveDefinition_aborted:
  "\<not> fst (updateRepoFile (CtxFileCache ctx) (Join im (rootPath p) ''.env'') (repo p)) \<Longrightarrow>
   EnvCallAtPosition im (CtxFile ctx) (CtxPosition ctx) \<noteq> None \<Longrightarrow>
   ResolveDefinition im p ctx =
     (p\<lparr>exampleRepo :=
        snd (updateRepoFile (CtxFileCache ctx) (Join im (rootPath p) ''.env'' @ ''.example'') (exampleRepo p))\<rparr>, [])"
  by (auto simp: ResolveDefinition_def updateRepo_primary_failed)

lemma ResolveCompletion_aborted:
  "\<not> fst (updateRepoFile (CtxFileCache ctx) (Join im (rootPath p) ''.env'') (repo p)) \<Longrightarrow>
   EnvCallAtPosition im (CtxFile ctx) (CtxPosition ctx) \<noteq> None \<Longrightarrow>
   ResolveCompletion im p ctx =
     (p\<lparr>exampleRepo :=
        snd (updateRepoFile (CtxFileCache ctx) (Join im (rootPath p) ''.env'' @ ''.example'') (exampleRepo p))\<rparr>, [])"
  by (auto simp: ResolveCompletion_def updateRepo_primary_failed)

lemma Diagnostic_aborted:
  "\<not> fst (updateRepoFile (CtxFileCache ctx) (Join im (rootPath p) ''.env'') (repo p)) \<Longrightarrow>
   EnvCalls im (CtxFile ctx) \<noteq> [] \<Longrightarrow>
   Diagnostic im p ctx =
     (p\<lparr>exampleRepo :=
        snd (updateRepoFile (CtxFileCache ctx) (Join im (rootPath p) ''.env'' @ ''.example'') (exampleRepo p))\<rparr>, [])"
  by (auto simp: Diagnostic_def Let_def updateRepo_primary_failed)

lemma ResolveCodeAction_aborted:
  "\<not> fst (updateRepoFile (CtxFileCache ctx) (Join im (rootPath p) ''.env'') (repo p)) \<Longrightarrow>
   EnvCallsInRange im (CtxFile ctx) (CtxRange ctx) \<noteq> [] \<Longrightarrow>
   ResolveCodeAction im p ctx =
     (p\<lparr>exampleRepo :=
        snd (updateRepoFile (CtxFileCache ctx) (Join im (rootPath p) ''.env'' @ ''.example'') (exampleRepo p))\<rparr>, [])"
  by (auto simp: ResolveCodeAction_def Let_def updateRepo_primary_failed)

text \<open>
  C10. A request that finds a node refreshes the example repository and keeps the
  result whatever its own outcome: the provider it leaves behind holds, as example
  repository, what the refresh of the example file returned. In particular, when the
  refresh of the primary repository fails, the request publishes nothing and leaves the
  provider it started from with the example repository so replaced: an aborted request
  can change the example repository.
\<close>

theorem aborted_request_keeps_example_refresh:
  assumes "ex' = snd (updateRepoFile fc (Join im (rootPath p) ''.env'' @ ''.example'') (exampleRepo p))"
  shows "(CtxFileCache hctx = fc \<and> EnvCallAtPosition im (CtxFile hctx) (CtxPosition hctx) \<noteq> None \<longrightarrow>
            exampleRepo (fst (Hover im p hctx)) = ex' \<and>
            (\<not> fst (updateRepoFile fc (Join im (rootPath p) ''.env'') (repo p)) \<longrightarrow>
               Hover im p hctx = (p\<lparr>exampleRepo := ex'\<rparr>, []))) \<and>
         (CtxFileCache dctx = fc \<and> EnvCallAtPosition im (CtxFile dctx) (CtxPosition dctx) \<noteq> None \<longrightarrow>
            exampleRepo (fst (ResolveDefinition im p dctx)) = ex' \<and>
            (\<not> fst (updateRepoFile fc (Join im (rootPath p) ''.env'') (repo p)) \<longrightarrow>
               ResolveDefinition im p dctx = (p\<lparr>exampleRepo := ex'\<rparr>, []))) \<and>
         (CtxFileCache cctx = fc \<and> EnvCallAtPosition im (CtxFile cctx) (CtxPosition cctx) \<noteq> None \<longrightarrow>
            exampleRepo (fst (ResolveCompletion im p cctx)) = ex' \<and>
            (\<not> fst (updateRepoFile fc (Join im (rootPath p) ''.env'') (repo p)) \<longrightarrow>
               ResolveCompletion im p cctx = (p\<lparr>exampleRepo := ex'\<rparr>, []))) \<and>
         (CtxFileCache gctx = fc \<and> EnvCalls im (CtxFile gctx) \<noteq> [] \<longrightarrow>
            exampleRepo (fst (Diagnostic im p gctx)) = ex' \<and>
            (\<not> fst (updateRepoFile fc (Join im (rootPath p) ''.env'') (repo p)) \<longrightarrow>
               Diagnostic im p gctx = (p\<lparr>exampleRepo := ex'\<rparr>, []))) \<and>
         (CtxFileCache actx = fc \<and> EnvCallsInRange im (CtxFile actx) (CtxRange actx) \<noteq> [] \<longrightarrow>
            exampleRepo (fst (ResolveCodeAction im p actx)) = ex' \<and>
            (\<not> fst (updateRepoFile fc (Join im (rootPath p) ''.env'') (repo p)) \<longrightarrow>
               ResolveCodeAction im p actx = (p\<lparr>exampleRepo := ex'\<rparr>, [])))"
proof -
  have h: "CtxFileCache hctx = fc \<and> EnvCallAtPosition im (CtxFile hctx) (CtxPosition hctx) \<noteq> None \<longrightarrow>
            exampleRepo (fst (Hover im p hctx)) = ex' \<and>
            (\<not> fst (updateRepoFile fc (Join im (rootPath p) ''.env'') (repo p)) \<longrightarrow>
               Hover im p hctx = (p\<lparr>exampleRepo := ex'\<rparr>, []))"
    by (auto simp: assms Hover_provider updateRepo_exampleRepo Hover_aborted)
  have d: "CtxFileCache dctx = fc \<and> EnvCallAtPosition im (CtxFile dctx) (CtxPosition dctx) \<noteq> None \<longrightarrow>
            exampleRepo (fst (ResolveDefinition im p dctx)) = ex' \<and>
            (\<not> fst (updateRepoFile fc (Join im (rootPath p) ''.env'') (repo p)) \<longrightarrow>
               ResolveDefinition im p dctx = (p\<lparr>exampleRepo := ex'\<rparr>, []))"
    by (auto simp: assms ResolveDefinition_provider updateRepo_exampleRepo ResolveDefinition_aborted)
  have c: "CtxFileCache cctx = fc \<and> EnvCallAtPosition im (CtxFile cctx) (CtxPosition cctx) \<noteq> None \<longrightarrow>
            exampleRepo (fst (ResolveCompletion im p cctx)) = ex' \<and>
            (\<not> fst (updateRepoFile fc (Join im (rootPath p) ''.env'') (repo p)) \<longrightarrow>
               ResolveCompletion im p cctx = (p\<lparr>exampleRepo := ex'\<rparr>, []))"
    by (auto simp: assms ResolveCompletion_provider updateRepo_exampleRepo ResolveCompletion_aborted)
  have g: "CtxFileCache gctx = fc \<and> EnvCalls im (CtxFile gctx) \<noteq> [] \<longrightarrow>
            exampleRepo (fst (Diagnostic im p gctx)) = ex' \<and>
            (\<not> fst (updateRepoFile fc (Join im (rootPath p) ''.env'') (repo p)) \<longrightarrow>
               Diagnostic im p gctx = (p\<lparr>exampleRepo := ex'\<rparr>, []))"
    by (auto simp: assms Diagnostic_provider updateRepo_exampleRepo Diagnostic_aborted)
  have a: "CtxFileCache actx = fc \<and> EnvCallsInRange im (CtxFile actx) (CtxRange actx) \<noteq> [] \<longrightarrow>
            exampleRepo (fst (ResolveCodeAction im p actx)) = ex' \<and>
            (\<not> fst (updateRepoFile fc (Join im (rootPath p) ''.env'') (repo p)) \<longrightarrow>
               ResolveCodeAction im p actx = (p\<lparr>exampleRepo := ex'\<rparr>, []))"
    by (auto simp: assms ResolveCodeAction_provider updateRepo_exampleRepo ResolveCodeAction_aborted)
  from h d c g a show ?thesis by blast
qed

theorem aborted_request_keeps_example_refresh_witness:
  "Hover (fixture_imports [(''APP_NAME'', False)]) fixture_provider
     (fixture_pctx None (Some example_content)) =
     (fixture_provider\<lparr>exampleRepo :=
        [(''APP_NAME'', \<lparr>Value = [], Line = 0, Column = 0\<rparr>),
         (''APP_KEY'', \<lparr>Value = [], Line = 1, Column = 0\<rparr>)]\<rparr>, []) \<and>
   exampleRepo fixture_provider = []"
proof -
  let ?im = "fixture_imports [(''APP_NAME'', False)]"
  let ?ctx = "fixture_pctx None (Some example_content)"
  have a: "\<not> fst (updateRepoFile (CtxFileCache ?ctx) (Join ?im (rootPath fixture_provider) ''.env'')
              (repo fixture_provider))"
    by code_simp
  have b: "snd (updateRepoFile (CtxFileCache ?ctx) (Join ?im (rootPath fixture_provider) ''.env'' @ ''.example'')
              (exampleRepo fixture_provider)) =
        [(''APP_NAME'', \<lparr>Value = [], Line = 0, Column = 0\<rparr>),
         (''APP_KEY'', \<lparr>Value = [], Line = 1, Column = 0\<rparr>)]"
    by code_simp
  have c: "EnvCallAtPosition ?im (CtxFile ?ctx) (CtxPosition ?ctx) \<noteq> None"
    by (simp add: fixture_EnvCallAtPosition)
  have d: "exampleRepo fixture_provider = []"
    by (simp add: fixture_provider_def NewProvider_def)
  show ?thesis
    using aborted_request_keeps_example_refresh [OF b [symmetric], where hctx = ?ctx] a c d
    by simp
qed

subsection \<open>Empty keys\<close>

lemma codeActions_abort:
  "GetKey im n (Src (CtxFile ctx)) = [] \<Longrightarrow>
   codeActions im p ctx (ns1 @ n # ns2) = codeActions im p ctx ns1"
  by (induction ns1) simp_all

text \<open>
  A completion request whose node yields the empty key publishes an item for every key
  of the primary repository: the empty text is the empty prefix.
\<close>

theorem empty_key_completion_counterexample:
  "GetKey (fixture_imports [([], False)]) ([], False)
     (Src (CtxFile (fixture_pctx (Some primary_content) (Some example_content)))) = [] \<and>
   snd (ResolveCompletion (fixture_imports [([], False)]) fixture_provider
          (fixture_pctx (Some primary_content) (Some example_content))) =
     [\<lparr>Label = ''APP_DEBUG'', Detail = ''true'', Kind = CompletionItemKindConstant\<rparr>,
      \<lparr>Label = ''APP_NAME'', Detail = ''Laravel'', Kind = CompletionItemKindConstant\<rparr>]"
  by code_simp

text \<open>
  C8, amended. In a hover request an empty key aborts the request: nothing is published.
  In a code-action request the loop returns at the first node whose key is empty:
  what is published is what the loop publishes for the nodes before it (nothing at all
  when the refresh failed), so nothing is published for that node or for any node after
  it. In a definition request an empty key is looked up like any other key: nothing is
  published when the primary repository has no entry under the empty key.
\<close>

theorem empty_key_aborts:
  "(EnvCallAtPosition im (CtxFile hctx) (CtxPosition hctx) = Some node \<and>
    GetKey im node (Src (CtxFile hctx)) = [] \<longrightarrow>
      snd (Hover im p hctx) = []) \<and>
   (EnvCallsInRange im (CtxFile actx) (CtxRange actx) = before @ n # after \<and>
    GetKey im n (Src (CtxFile actx)) = [] \<longrightarrow>
      snd (ResolveCodeAction im p actx) =
        (if fst (updateRepo im (CtxFileCache actx) p)
         then codeActions im (snd (updateRepo im (CtxFileCache actx) p)) actx before
         else [])) \<and>
   (EnvCallAtPosition im (CtxFile dctx) (CtxPosition dctx) = Some node' \<and>
    GetKey im node' (Src (CtxFile dctx)) = [] \<and>
    Get (repo (snd (updateRepo im (CtxFileCache dctx) p))) [] = None \<longrightarrow>
      snd (ResolveDefinition im p dctx) = [])"
proof (intro conjI impI)
  assume "EnvCallAtPosition im (CtxFile hctx) (CtxPosition hctx) = Some node \<and>
    GetKey im node (Src (CtxFile hctx)) = []"
  then show "snd (Hover im p hctx) = []"
    by (simp add: Hover_def split: prod.splits)
next
  assume a: "EnvCallsInRange im (CtxFile actx) (CtxRange actx) = before @ n # after \<and>
    GetKey im n (Src (CtxFile actx)) = []"
  obtain ok p' where u: "updateRepo im (CtxFileCache actx) p = (ok, p')"
    by (cases "updateRepo im (CtxFileCache actx) p")
  from a have abort: "codeActions im p' actx (before @ n # after) = codeActions im p' actx before"
    by (simp add: codeActions_abort)
  from a u show "snd (ResolveCodeAction im p actx) =
        (if fst (updateRepo im (CtxFileCache actx) p)
         then codeActions im (snd (updateRepo im (CtxFileCache actx) p)) actx before
         else [])"
    by (simp add: ResolveCodeAction_def Let_def abort)
next
  assume d: "EnvCallAtPosition im (CtxFile dctx) (CtxPosition dctx) = Some node' \<and>
    GetKey im node' (Src (CtxFile dctx)) = [] \<and>
    Get (repo (snd (updateRepo im (CtxFileCache dctx) p))) [] = None"
  obtain ok p' where u: "updateRepo im (CtxFileCache dctx) p = (ok, p')"
    by (cases "updateRepo im (CtxFileCache dctx) p")
  from d u have "Get (repo p') [] = None" by simp
  with d u show "snd (ResolveDefinition im p dctx) = []"
    by (simp add: ResolveDefinition_def)
qed

theorem empty_key_aborts_witness:
  "snd (Hover (fixture_imports [([], False)]) fixture_provider
          (fixture_pctx (Some primary_content) (Some example_content))) = [] \<and>
   snd (ResolveCodeAction (fixture_imports [(''APP_KEY'', False), ([], False), (''NEW_KEY'', False)])
          fixture_provider (fixture_actx (Some primary_content) (Some example_content))) =
     [\<lparr>ActionURI = ''file:///app/.env'', Title = ''Copy value from .env.example'',
        ActionLine = 2, NewText = ''APP_KEY=''\<rparr>,
      \<lparr>ActionURI = ''file:///app/.env'', Title = ''Add value to .env file'',
        ActionLine = 2, NewText = ''APP_KEY=''\<rparr>] \<and>
   snd (ResolveDefinition (fixture_imports [([], False)]) fixture_provider
          (fixture_pctx (Some primary_content) (Some example_content))) = []"
proof -
  let ?im = "fixture_imports [([], False)]"
  let ?im' = "fixture_imports [(''APP_KEY'', False), ([], False), (''NEW_KEY'', False)]"
  let ?pctx = "fixture_pctx (Some primary_content) (Some example_content)"
  let ?actx = "fixture_actx (Some primary_content) (Some example_content)"
  have n: "EnvCallsInRange ?im' (CtxFile ?actx) (CtxRange ?actx) =
      [(''APP_KEY'', False)] @ ([], False) # [(''NEW_KEY'', False)]"
    by (simp add: fixture_EnvCallsInRange)
  have ok: "fst (updateRepo ?im' (CtxFileCache ?actx) fixture_provider)" by code_simp
  have c: "codeActions ?im' (snd (updateRepo ?im' (CtxFileCache ?actx) fixture_provider)) ?actx
             [(''APP_KEY'', False)] =
     [\<lparr>ActionURI = ''file:///app/.env'', Title = ''Copy value from .env.example'',
        ActionLine = 2, NewText = ''APP_KEY=''\<rparr>,
      \<lparr>ActionURI = ''file:///app/.env'', Title = ''Add value to .env file'',
        ActionLine = 2, NewText = ''APP_KEY=''\<rparr>]"
    by code_simp
  have g: "Get (repo (snd (updateRepo ?im (CtxFileCache ?pctx) fixture_provider))) [] = None"
    by code_simp
  show ?thesis
    using empty_key_aborts [where im = ?im and hctx = ?pctx and dctx = ?pctx and p = fixture_provider
        and node = "([], False)" and node' = "([], False)"]
      empty_key_aborts [where im = ?im' and actx = ?actx and p = fixture_provider
        and before = "[(''APP_KEY'', False)]" and n = "([], False)" and after = "[(''NEW_KEY'', False)]"]
      n ok c g
    by (simp add: fixture_EnvCallAtPosition fixture_GetKey)
qed

end
